theory Spec2Isabelle
  imports Main
begin

text \<open>
  The club and event backend: its tables, and the handlers of the ticket and seat
  workflow, of the request-approval workflow, of club deletion and of likes, as
  functions from a store to an HTTP answer and the store the handler leaves behind.
  A handler's \<open>try\<close>/\<open>catch\<close> answers 500 when a statement throws; the writes made
  before the failing statement stay in the store that is returned.
\<close>

section \<open>Data model (models/schema.js)\<close>

text \<open>
  The tables of the schema are lists of rows in insertion order. The two timestamp
  columns \<open>createdAt\<close> and \<open>updatedAt\<close> are left out: the handlers modelled
  here write the current time into them and never read them, so every statement below
  about a row is about its other columns. Nullable columns are options; the
  \<open>status\<close>, \<open>role\<close>, \<open>rating\<close> and \<open>likes\<close> columns, which every insert of the
  code base fills (explicitly or by the column default), are plain values. Integer
  columns are unbounded integers and ids are natural numbers. JavaScript computes with
  doubles: on integers of magnitude up to \<open>2 ^ 53\<close> its sums and differences are
  the integers' own, beyond that they are rounded (see \<open>to_double\<close> below).
\<close>

datatype role = Student | HeadAdmin | SuperAdmin

datatype status = Pending | Approved | Rejected

fun status_text :: "status \<Rightarrow> string" where
  "status_text Pending = ''pending''"
| "status_text Approved = ''approved''"
| "status_text Rejected = ''rejected''"

record user =
  u_id :: nat
  u_name :: string
  u_surname :: string
  u_email :: string
  u_password :: string
  u_role :: role
  u_phone :: "string option"
  u_gender :: "string option"
  u_birthDate :: "string option"
  u_clubName :: "string option"
  u_isEmailVerified :: bool

record clubRequest =
  cr_id :: nat
  cr_title :: string
  cr_headId :: nat
  cr_email :: string
  cr_phone :: string
  cr_communication :: string
  cr_clubName :: string
  cr_goal :: string
  cr_description :: string
  cr_financing :: string
  cr_resources :: "string option"
  cr_attractionMethods :: string
  cr_comment :: "string option"
  cr_status :: status

record club =
  c_id :: nat
  c_name :: string
  c_headId :: nat
  c_goal :: string
  c_description :: string
  c_financing :: string
  c_resources :: "string option"
  c_attractionMethods :: string
  c_rating :: int

record eventRequest =
  er_id :: nat
  er_clubId :: nat
  er_headId :: nat
  er_eventName :: string
  er_eventDate :: string
  er_location :: string
  er_shortDescription :: string
  er_goal :: string
  er_organizers :: string
  er_schedule :: string
  er_sponsorship :: "string option"
  er_clubHead :: string
  er_phone :: string
  er_comment :: "string option"
  er_status :: status

record event =
  e_id :: nat
  e_clubId :: nat
  e_headId :: nat
  e_eventName :: string
  e_eventDate :: string
  e_location :: string
  e_shortDescription :: string
  e_goal :: string
  e_organizers :: string
  e_schedule :: string
  e_sponsorship :: "string option"

record poster =
  p_id :: nat
  p_eventId :: nat
  p_clubId :: nat
  p_headId :: nat
  p_eventTitle :: string
  p_eventDate :: string
  p_location :: string
  p_time :: string
  p_description :: string
  p_seats :: int
  p_seatsLeft :: int
  p_price :: int
  p_image :: "string option"

record ticketBooking =
  t_id :: nat
  t_posterId :: nat
  t_userId :: nat
  t_numberOfPersons :: int
  t_paymentProof :: "string option"
  t_status :: status

record post =
  po_id :: nat
  po_clubId :: "nat option"
  po_userId :: nat
  po_title :: string
  po_content :: string
  po_image :: "string option"
  po_likes :: int

record postLike =
  pl_id :: nat
  pl_postId :: nat
  pl_userId :: nat

record clubSubscription =
  cs_id :: nat
  cs_clubId :: nat
  cs_userId :: nat

record eventComment =
  ec_id :: nat
  ec_eventId :: nat
  ec_userId :: nat
  ec_content :: string

record clubRating =
  rt_id :: nat
  rt_clubId :: nat
  rt_userId :: nat
  rt_rating :: int
  rt_comment :: "string option"

text \<open>
  The store: one list per table, and for each table the handlers insert into, the
  largest id ever handed out (SQLite keeps it in \<open>sqlite_sequence\<close> for a primary key
  declared \<open>autoIncrement\<close>). The tables \<open>club_subscriptions\<close>, \<open>event_comments\<close>
  and \<open>club_ratings\<close> are written by the services under \<open>utils\<close> only; they are
  in the store because their rows reference clubs and events. The two remaining tables
  of the schema, \<open>personal_events\<close> and \<open>user_notifications\<close>, reference users
  only, and no handler below reads or writes them.
\<close>

record db =
  users :: "user list"
  clubRequests :: "clubRequest list"
  clubs :: "club list"
  eventRequests :: "eventRequest list"
  events :: "event list"
  posters :: "poster list"
  ticketBookings :: "ticketBooking list"
  posts :: "post list"
  postLikes :: "postLike list"
  clubSubscriptions :: "clubSubscription list"
  eventComments :: "eventComment list"
  clubRatings :: "clubRating list"
  clubs_seq :: nat
  events_seq :: nat
  posters_seq :: nat
  ticketBookings_seq :: nat
  postLikes_seq :: nat

text \<open>\<open>req.user\<close>: the identity the token carries.\<close>

record req_user =
  ru_id :: nat
  ru_role :: role

type_synonym response = "nat \<times> string"

section \<open>Queries\<close>

text \<open>\<open>.get()\<close> returns the first row that satisfies the condition, if any.\<close>

definition get_where :: "('a \<Rightarrow> bool) \<Rightarrow> 'a list \<Rightarrow> 'a option" where
  "get_where P rows = find P rows"

text \<open>\<open>.all()\<close> returns every such row.\<close>

definition all_where :: "('a \<Rightarrow> bool) \<Rightarrow> 'a list \<Rightarrow> 'a list" where
  "all_where P rows = filter P rows"

text \<open>\<open>db.update(t).set(..).where(..)\<close> rewrites every row that satisfies the condition.\<close>

definition update_where :: "('a \<Rightarrow> bool) \<Rightarrow> ('a \<Rightarrow> 'a) \<Rightarrow> 'a list \<Rightarrow> 'a list" where
  "update_where P f rows = map (\<lambda>r. if P r then f r else r) rows"

text \<open>\<open>db.delete(t).where(..)\<close> removes every row that satisfies the condition.\<close>

definition delete_where :: "('a \<Rightarrow> bool) \<Rightarrow> 'a list \<Rightarrow> 'a list" where
  "delete_where P rows = filter (\<lambda>r. \<not> P r) rows"

text \<open>The id of a new row: one more than the largest id the table has ever held.\<close>

definition next_id :: "nat \<Rightarrow> nat list \<Rightarrow> nat" where
  "next_id seq ids = Suc (fold max ids seq)"




definition user_by_id :: "nat \<Rightarrow> db \<Rightarrow> user option" where
  "user_by_id i s = get_where (\<lambda>u. u_id u = i) (users s)"

definition clubRequest_by_id :: "nat \<Rightarrow> db \<Rightarrow> clubRequest option" where
  "clubRequest_by_id i s = get_where (\<lambda>r. cr_id r = i) (clubRequests s)"

definition eventRequest_by_id :: "nat \<Rightarrow> db \<Rightarrow> eventRequest option" where
  "eventRequest_by_id i s = get_where (\<lambda>r. er_id r = i) (eventRequests s)"

definition club_by_id :: "nat \<Rightarrow> db \<Rightarrow> club option" where
  "club_by_id i s = get_where (\<lambda>c. c_id c = i) (clubs s)"

definition post_by_id :: "nat \<Rightarrow> db \<Rightarrow> post option" where
  "post_by_id i s = get_where (\<lambda>p. po_id p = i) (posts s)"

text \<open>The like row of a user on a post, as \<open>toggleLikePost\<close> looks it up.\<close>

definition like_of :: "nat \<Rightarrow> nat \<Rightarrow> db \<Rightarrow> postLike option" where
  "like_of postId userId s =
     get_where (\<lambda>l. pl_postId l = postId \<and> pl_userId l = userId) (postLikes s)"

section \<open>JavaScript's \<open>||\<close> on request fields\<close>






text \<open>
  A numeric field of a body that the handler reads untyped (\<open>seats\<close> and \<open>price\<close> of
  \<open>updatePoster\<close>). \<open>express.json\<close> delivers a number, \<open>express.urlencoded\<close> a
  string. \<open>Missing\<close> stands for an absent field and for \<open>null\<close>, \<open>false\<close> and the
  empty string, which \<open>&&\<close> and \<open>||\<close> treat alike; \<open>Num n\<close> for the number
  written \<open>n\<close>; \<open>NumStr n\<close> for a string of decimal digits that spells the
  integer \<open>n\<close>, such as \<open>"0"\<close> or \<open>"12"\<close>. Other values (fractions,
  \<open>true\<close>, text that is not a decimal integer, arrays, objects) are not covered.
\<close>

datatype body_number = Missing | Num int | NumStr int



section \<open>Posters (posterController.js)\<close>

record createPoster_body =
  cp_eventId :: nat
  cp_eventTitle :: string
  cp_eventDate :: string
  cp_location :: string
  cp_time :: string
  cp_description :: string
  cp_seats :: int
  cp_price :: int
  cp_image :: "string option"


text \<open>
  The body of \<open>updatePoster\<close>: every field may be absent. \<open>image\<close> is tested against
  \<open>undefined\<close>, so an explicit \<open>null\<close> (\<open>Some None\<close>) is distinguished from absence.
\<close>

record updatePoster_body =
  up_eventTitle :: "string option"
  up_eventDate :: "string option"
  up_location :: "string option"
  up_time :: "string option"
  up_description :: "string option"
  up_seats :: body_number
  up_price :: body_number
  up_image :: "string option option"




section \<open>Tickets (ticketController.js)\<close>

text \<open>
  \<open>numberOfPersons\<close> is the number the body's field denotes. The handlers below
  subtract it from, and add it to, \<open>seatsLeft\<close>; the model does so on integers,
  which is what JavaScript computes as long as the values stay within \<open>2 ^ 53\<close>.
\<close>

record bookTicket_body =
  posterId :: nat
  numberOfPersons :: int
  paymentProof :: "string option"




section \<open>Club requests (clubRequestController.js)\<close>

text \<open>
  The handlers run their writes one after the other, each in its own statement. The
  one write that the schema can refuse is the insert into \<open>clubs\<close>, whose \<open>name\<close>
  column is declared \<open>unique\<close>: the driver then throws, the handler's \<open>catch\<close> answers
  500, and the writes made before it stay. The rows that the handlers insert reference
  rows the handler has just read, or the caller's own user row; the foreign-key check
  of an insert is not written out.
\<close>

definition approveClubRequest :: "req_user \<Rightarrow> nat \<Rightarrow> db \<Rightarrow> response \<times> db" where
  "approveClubRequest usr requestId s =
     (if ru_role usr \<noteq> SuperAdmin then ((403, ''Unauthorized access''), s)
      else case clubRequest_by_id requestId s of
        None \<Rightarrow> ((404, ''Club request not found''), s)
      | Some request \<Rightarrow>
          if cr_status request \<noteq> Pending
          then ((400, ''Request already '' @ status_text (cr_status request)), s)
          else
            let s1 = s\<lparr>clubRequests := update_where (\<lambda>r. cr_id r = requestId)
                         (\<lambda>r. r\<lparr>cr_status := Approved\<rparr>) (clubRequests s)\<rparr>
            in
              if cr_clubName request \<in> set (map c_name (clubs s1))
              then ((500, ''Server error''), s1)
              else
                let new = next_id (clubs_seq s1) (map c_id (clubs s1));
                    s2 = s1\<lparr>clubs := clubs s1 @
                             [\<lparr>c_id = new, c_name = cr_clubName request,
                               c_headId = cr_headId request, c_goal = cr_goal request,
                               c_description = cr_description request,
                               c_financing = cr_financing request,
                               c_resources = cr_resources request,
                               c_attractionMethods = cr_attractionMethods request,
                               c_rating = 0\<rparr>],
                           clubs_seq := new\<rparr>;
                    s3 = s2\<lparr>users := update_where (\<lambda>u. u_id u = cr_headId request)
                             (\<lambda>u. u\<lparr>u_role := HeadAdmin\<rparr>) (users s2)\<rparr>
                in ((200, ''Club request approved and club created successfully''), s3))"

definition rejectClubRequest :: "req_user \<Rightarrow> nat \<Rightarrow> db \<Rightarrow> response \<times> db" where
  "rejectClubRequest usr requestId s =
     (if ru_role usr \<noteq> SuperAdmin then ((403, ''Unauthorized access''), s)
      else case clubRequest_by_id requestId s of
        None \<Rightarrow> ((404, ''Club request not found''), s)
      | Some request \<Rightarrow>
          if cr_status request \<noteq> Pending
          then ((400, ''Request already '' @ status_text (cr_status request)), s)
          else
            ((200, ''Club request rejected''),
             s\<lparr>clubRequests := update_where (\<lambda>r. cr_id r = requestId)
                  (\<lambda>r. r\<lparr>cr_status := Rejected\<rparr>) (clubRequests s)\<rparr>))"

section \<open>Event requests (eventRequestController.js)\<close>

definition approveEventRequest :: "req_user \<Rightarrow> nat \<Rightarrow> db \<Rightarrow> response \<times> db" where
  "approveEventRequest usr requestId s =
     (if ru_role usr \<noteq> SuperAdmin then ((403, ''Unauthorized access''), s)
      else case eventRequest_by_id requestId s of
        None \<Rightarrow> ((404, ''Event request not found''), s)
      | Some request \<Rightarrow>
          if er_status request \<noteq> Pending
          then ((400, ''Request already '' @ status_text (er_status request)), s)
          else
            let s1 = s\<lparr>eventRequests := update_where (\<lambda>r. er_id r = requestId)
                         (\<lambda>r. r\<lparr>er_status := Approved\<rparr>) (eventRequests s)\<rparr>;
                new = next_id (events_seq s1) (map e_id (events s1));
                s2 = s1\<lparr>events := events s1 @
                         [\<lparr>e_id = new, e_clubId = er_clubId request,
                           e_headId = er_headId request, e_eventName = er_eventName request,
                           e_eventDate = er_eventDate request,
                           e_location = er_location request,
                           e_shortDescription = er_shortDescription request,
                           e_goal = er_goal request, e_organizers = er_organizers request,
                           e_schedule = er_schedule request,
                           e_sponsorship = er_sponsorship request\<rparr>],
                       events_seq := new\<rparr>
            in ((200, ''Event request approved and event created successfully''), s2))"

definition rejectEventRequest :: "req_user \<Rightarrow> nat \<Rightarrow> db \<Rightarrow> response \<times> db" where
  "rejectEventRequest usr requestId s =
     (if ru_role usr \<noteq> SuperAdmin then ((403, ''Unauthorized access''), s)
      else case eventRequest_by_id requestId s of
        None \<Rightarrow> ((404, ''Event request not found''), s)
      | Some request \<Rightarrow>
          if er_status request \<noteq> Pending
          then ((400, ''Request already '' @ status_text (er_status request)), s)
          else
            ((200, ''Event request rejected''),
             s\<lparr>eventRequests := update_where (\<lambda>r. er_id r = requestId)
                  (\<lambda>r. r\<lparr>er_status := Rejected\<rparr>) (eventRequests s)\<rparr>))"

section \<open>Likes (postController.js)\<close>

definition toggleLikePost :: "req_user \<Rightarrow> nat \<Rightarrow> db \<Rightarrow> response \<times> db" where
  "toggleLikePost usr postId s =
     (case post_by_id postId s of
        None \<Rightarrow> ((404, ''Post not found''), s)
      | Some post \<Rightarrow>
         (case like_of postId (ru_id usr) s of
            Some existingLike \<Rightarrow>
              let s1 = s\<lparr>postLikes := delete_where
                           (\<lambda>l. pl_postId l = postId \<and> pl_userId l = ru_id usr)
                           (postLikes s)\<rparr>;
                  s2 = s1\<lparr>posts := update_where (\<lambda>p. po_id p = postId)
                           (\<lambda>p. p\<lparr>po_likes := po_likes post - 1\<rparr>) (posts s1)\<rparr>
              in ((200, ''Post unliked successfully''), s2)
          | None \<Rightarrow>
              let new = next_id (postLikes_seq s) (map pl_id (postLikes s));
                  s1 = s\<lparr>postLikes := postLikes s @
                           [\<lparr>pl_id = new, pl_postId = postId, pl_userId = ru_id usr\<rparr>],
                         postLikes_seq := new\<rparr>;
                  s2 = s1\<lparr>posts := update_where (\<lambda>p. po_id p = postId)
                           (\<lambda>p. p\<lparr>po_likes := po_likes post + 1\<rparr>) (posts s1)\<rparr>
              in ((200, ''Post liked successfully''), s2)))"

section \<open>Club deletion (clubController.js)\<close>

text \<open>The two \<open>for\<close> loops: one delete statement per poster, and per post, of the club.\<close>

fun delete_bookings_of :: "poster list \<Rightarrow> ticketBooking list \<Rightarrow> ticketBooking list" where
  "delete_bookings_of [] ts = ts"
| "delete_bookings_of (poster # rest) ts =
     delete_bookings_of rest (delete_where (\<lambda>t. t_posterId t = p_id poster) ts)"

fun delete_likes_of :: "post list \<Rightarrow> postLike list \<Rightarrow> postLike list" where
  "delete_likes_of [] ls = ls"
| "delete_likes_of (post # rest) ls =
     delete_likes_of rest (delete_where (\<lambda>l. pl_postId l = po_id post) ls)"

text \<open>
  Modelled from the spec: whether the connection enforces foreign keys is set in
  \<open>db.js\<close>, which is not among the sources; section 2 of the spec says that the entity
  store enforces them. So a delete statement throws, and removes nothing, when a row of
  another table references one of the rows it would remove. The references are those
  that \<open>schema.js\<close> declares.
\<close>

definition referenced :: "nat list \<Rightarrow> nat list \<Rightarrow> bool" where
  "referenced keys refs \<longleftrightarrow> (\<exists>k \<in> set refs. k \<in> set keys)"

text \<open>
  The eight statements of \<open>deleteClub\<close>, each from the store it finds to the store it
  leaves, or to \<open>None\<close> when it throws. No table references \<open>ticket_bookings\<close>,
  \<open>post_likes\<close> or \<open>event_requests\<close>, and the update of the role changes no key.
\<close>

definition delete_club_bookings :: "nat \<Rightarrow> db \<Rightarrow> db option" where
  "delete_club_bookings clubId s =
     (let clubPosters = all_where (\<lambda>p. p_clubId p = clubId) (posters s)
      in Some (s\<lparr>ticketBookings := delete_bookings_of clubPosters (ticketBookings s)\<rparr>))"

definition delete_club_likes :: "nat \<Rightarrow> db \<Rightarrow> db option" where
  "delete_club_likes clubId s =
     (let clubPosts = all_where (\<lambda>p. po_clubId p = Some clubId) (posts s)
      in Some (s\<lparr>postLikes := delete_likes_of clubPosts (postLikes s)\<rparr>))"

definition delete_club_posts :: "nat \<Rightarrow> db \<Rightarrow> db option" where
  "delete_club_posts clubId s =
     (let gone = map po_id (all_where (\<lambda>p. po_clubId p = Some clubId) (posts s))
      in if referenced gone (map pl_postId (postLikes s)) then None
         else Some (s\<lparr>posts := delete_where (\<lambda>p. po_clubId p = Some clubId) (posts s)\<rparr>))"

definition delete_club_posters :: "nat \<Rightarrow> db \<Rightarrow> db option" where
  "delete_club_posters clubId s =
     (let gone = map p_id (all_where (\<lambda>p. p_clubId p = clubId) (posters s))
      in if referenced gone (map t_posterId (ticketBookings s)) then None
         else Some (s\<lparr>posters := delete_where (\<lambda>p. p_clubId p = clubId) (posters s)\<rparr>))"

definition delete_club_events :: "nat \<Rightarrow> db \<Rightarrow> db option" where
  "delete_club_events clubId s =
     (let gone = map e_id (all_where (\<lambda>e. e_clubId e = clubId) (events s))
      in if referenced gone (map p_eventId (posters s))
            \<or> referenced gone (map ec_eventId (eventComments s)) then None
         else Some (s\<lparr>events := delete_where (\<lambda>e. e_clubId e = clubId) (events s)\<rparr>))"

definition delete_club_eventRequests :: "nat \<Rightarrow> db \<Rightarrow> db option" where
  "delete_club_eventRequests clubId s =
     Some (s\<lparr>eventRequests := delete_where (\<lambda>r. er_clubId r = clubId) (eventRequests s)\<rparr>)"

definition reset_head_role :: "club \<Rightarrow> db \<Rightarrow> db option" where
  "reset_head_role club s =
     Some (s\<lparr>users := update_where (\<lambda>u. u_id u = c_headId club)
                 (\<lambda>u. u\<lparr>u_role := Student\<rparr>) (users s)\<rparr>)"

definition delete_club_row :: "nat \<Rightarrow> db \<Rightarrow> db option" where
  "delete_club_row clubId s =
     (let gone = map c_id (all_where (\<lambda>c. c_id c = clubId) (clubs s))
      in if referenced gone (map er_clubId (eventRequests s))
            \<or> referenced gone (map e_clubId (events s))
            \<or> referenced gone (map p_clubId (posters s))
            \<or> referenced gone (List.map_filter po_clubId (posts s))
            \<or> referenced gone (map cs_clubId (clubSubscriptions s))
            \<or> referenced gone (map rt_clubId (clubRatings s)) then None
         else Some (s\<lparr>clubs := delete_where (\<lambda>c. c_id c = clubId) (clubs s)\<rparr>))"

definition deleteClub_statements :: "nat \<Rightarrow> club \<Rightarrow> (db \<Rightarrow> db option) list" where
  "deleteClub_statements clubId club =
     [delete_club_bookings clubId, delete_club_likes clubId, delete_club_posts clubId,
      delete_club_posters clubId, delete_club_events clubId,
      delete_club_eventRequests clubId, reset_head_role club, delete_club_row clubId]"

text \<open>
  Statements run in order inside the handler's \<open>try\<close>: the first that throws ends the
  run, and the store is the one the statements before it have left.
\<close>

fun run_statements :: "(db \<Rightarrow> db option) list \<Rightarrow> db \<Rightarrow> bool \<times> db" where
  "run_statements [] s = (True, s)"
| "run_statements (stmt # rest) s =
     (case stmt s of None \<Rightarrow> (False, s) | Some s' \<Rightarrow> run_statements rest s')"

definition deleteClub :: "req_user \<Rightarrow> nat \<Rightarrow> db \<Rightarrow> response \<times> db" where
  "deleteClub usr clubId s =
     (if ru_role usr \<noteq> SuperAdmin then ((403, ''Only super admins can delete clubs''), s)
      else case club_by_id clubId s of
        None \<Rightarrow> ((404, ''Club not found''), s)
      | Some club \<Rightarrow>
         (case run_statements (deleteClub_statements clubId club) s of
            (True, s') \<Rightarrow>
              ((200, ''Club deleted successfully and head admin role reset to student''), s')
          | (False, s') \<Rightarrow> ((500, ''Server error''), s')))"

section \<open>Sequences of calls\<close>

datatype op =
    CreatePoster req_user createPoster_body
  | UpdatePoster req_user nat updatePoster_body
  | BookTicket req_user bookTicket_body
  | ApproveTicket req_user nat
  | RejectTicket req_user nat



text \<open>Approving or rejecting a club or event request.\<close>

datatype request_op = ApproveClub | RejectClub | ApproveEvent | RejectEvent

fun resolve :: "request_op \<Rightarrow> req_user \<Rightarrow> nat \<Rightarrow> db \<Rightarrow> response \<times> db" where
  "resolve ApproveClub = approveClubRequest"
| "resolve RejectClub = rejectClubRequest"
| "resolve ApproveEvent = approveEventRequest"
| "resolve RejectEvent = rejectEventRequest"

section \<open>Concrete stores for the worked examples\<close>

definition empty_db :: db where
  "empty_db = \<lparr>users = [], clubRequests = [], clubs = [], eventRequests = [], events = [],
     posters = [], ticketBookings = [], posts = [], postLikes = [],
     clubSubscriptions = [], eventComments = [], clubRatings = [],
     clubs_seq = 0, events_seq = 0, posters_seq = 0, ticketBookings_seq = 0,
     postLikes_seq = 0\<rparr>"

definition ex_admin :: req_user where
  "ex_admin = \<lparr>ru_id = 1, ru_role = SuperAdmin\<rparr>"

definition ex_head :: req_user where
  "ex_head = \<lparr>ru_id = 2, ru_role = HeadAdmin\<rparr>"

definition ex_student :: req_user where
  "ex_student = \<lparr>ru_id = 3, ru_role = Student\<rparr>"

definition ex_user :: "nat \<Rightarrow> role \<Rightarrow> user" where
  "ex_user i r = \<lparr>u_id = i, u_name = ''A'', u_surname = ''B'', u_email = ''a@b.c'',
     u_password = ''hash'', u_role = r, u_phone = None, u_gender = None,
     u_birthDate = None, u_clubName = None, u_isEmailVerified = True\<rparr>"

definition ex_users :: "user list" where
  "ex_users = [ex_user 1 SuperAdmin, ex_user 2 HeadAdmin, ex_user 3 Student]"

definition ex_poster :: poster where
  "ex_poster = \<lparr>p_id = 1, p_eventId = 1, p_clubId = 1, p_headId = 2,
     p_eventTitle = ''Open day'', p_eventDate = ''2025-05-01'', p_location = ''Hall'',
     p_time = ''18:00'', p_description = ''Welcome'', p_seats = 10, p_seatsLeft = 4,
     p_price = 500, p_image = None\<rparr>"

definition ex_booking :: ticketBooking where
  "ex_booking = \<lparr>t_id = 1, t_posterId = 1, t_userId = 3, t_numberOfPersons = 6,
     t_paymentProof = Some ''proof.png'', t_status = Pending\<rparr>"

definition ex_db :: db where
  "ex_db = empty_db\<lparr>users := ex_users, posters := [ex_poster],
     ticketBookings := [ex_booking], posters_seq := 1, ticketBookings_seq := 1\<rparr>"

definition no_update :: updatePoster_body where
  "no_update = \<lparr>up_eventTitle = None, up_eventDate = None, up_location = None,
     up_time = None, up_description = None, up_seats = Missing, up_price = Missing,
     up_image = None\<rparr>"

definition ex_clubRequest :: "nat \<Rightarrow> nat \<Rightarrow> status \<Rightarrow> clubRequest" where
  "ex_clubRequest i h st = \<lparr>cr_id = i, cr_title = ''Request'', cr_headId = h,
     cr_email = ''a@b.c'', cr_phone = ''1'', cr_communication = ''chat'',
     cr_clubName = ''Chess Club'', cr_goal = ''Play'', cr_description = ''Chess'',
     cr_financing = ''None'', cr_resources = None, cr_attractionMethods = ''Posters'',
     cr_comment = None, cr_status = st\<rparr>"

text \<open>Two students ask for a club of the same name.\<close>

definition two_requests_db :: db where
  "two_requests_db = empty_db\<lparr>users := [ex_user 1 SuperAdmin, ex_user 2 Student, ex_user 3 Student],
     clubRequests := [ex_clubRequest 1 2 Pending, ex_clubRequest 2 3 Pending]\<rparr>"

text \<open>A store in which one club request and one event request are resolved.\<close>

definition ex_eventRequest :: "nat \<Rightarrow> status \<Rightarrow> eventRequest" where
  "ex_eventRequest i st = \<lparr>er_id = i, er_clubId = 1, er_headId = 2, er_eventName = ''Open day'',
     er_eventDate = ''2025-05-01'', er_location = ''Hall'', er_shortDescription = ''Welcome'',
     er_goal = ''Meet'', er_organizers = ''Club'', er_schedule = ''18:00'',
     er_sponsorship = None, er_clubHead = ''A B'', er_phone = ''1'', er_comment = None,
     er_status = st\<rparr>"

definition resolved_db :: db where
  "resolved_db = empty_db\<lparr>users := ex_users,
     clubRequests := [ex_clubRequest 1 2 Approved, ex_clubRequest 2 3 Pending],
     eventRequests := [ex_eventRequest 1 Rejected]\<rparr>"

text \<open>A post that users 3 and 2 have liked.\<close>

definition ex_post :: post where
  "ex_post = \<lparr>po_id = 1, po_clubId = Some 1, po_userId = 2, po_title = ''News'',
     po_content = ''Hello'', po_image = None, po_likes = 2\<rparr>"

definition liked_db :: db where
  "liked_db = empty_db\<lparr>users := ex_users, posts := [ex_post],
     postLikes := [\<lparr>pl_id = 1, pl_postId = 1, pl_userId = 3\<rparr>,
                   \<lparr>pl_id = 2, pl_postId = 1, pl_userId = 2\<rparr>],
     postLikes_seq := 2\<rparr>"

text \<open>Two clubs, each with an event, a poster, a booking, a post and likes.\<close>

definition ex_club :: "nat \<Rightarrow> string \<Rightarrow> nat \<Rightarrow> club" where
  "ex_club i n h = \<lparr>c_id = i, c_name = n, c_headId = h, c_goal = ''Play'',
     c_description = ''A club'', c_financing = ''None'', c_resources = None,
     c_attractionMethods = ''Posters'', c_rating = 0\<rparr>"

definition ex_event :: "nat \<Rightarrow> nat \<Rightarrow> nat \<Rightarrow> event" where
  "ex_event i c h = \<lparr>e_id = i, e_clubId = c, e_headId = h, e_eventName = ''Open day'',
     e_eventDate = ''2025-05-01'', e_location = ''Hall'', e_shortDescription = ''Welcome'',
     e_goal = ''Meet'', e_organizers = ''Club'', e_schedule = ''18:00'',
     e_sponsorship = None\<rparr>"

definition campus_db :: db where
  "campus_db = empty_db\<lparr>
     users := [ex_user 1 SuperAdmin, ex_user 2 HeadAdmin, ex_user 3 Student,
               ex_user 4 HeadAdmin],
     clubs := [ex_club 1 ''Chess Club'' 2, ex_club 2 ''Drama Club'' 4],
     eventRequests := [ex_eventRequest 1 Approved,
                       (ex_eventRequest 2 Pending)\<lparr>er_clubId := 2, er_headId := 4\<rparr>],
     events := [ex_event 1 1 2, ex_event 2 2 4],
     posters := [ex_poster,
                 ex_poster\<lparr>p_id := 2, p_eventId := 2, p_clubId := 2, p_headId := 4\<rparr>],
     ticketBookings := [ex_booking, ex_booking\<lparr>t_id := 2, t_posterId := 2\<rparr>],
     posts := [ex_post, ex_post\<lparr>po_id := 2, po_clubId := Some 2, po_userId := 4\<rparr>,
               ex_post\<lparr>po_id := 3, po_clubId := None, po_userId := 3\<rparr>],
     postLikes := [\<lparr>pl_id = 1, pl_postId = 1, pl_userId = 3\<rparr>,
                   \<lparr>pl_id = 2, pl_postId = 1, pl_userId = 2\<rparr>,
                   \<lparr>pl_id = 3, pl_postId = 2, pl_userId = 3\<rparr>],
     clubs_seq := 2, events_seq := 2, posters_seq := 2, ticketBookings_seq := 2,
     postLikes_seq := 3\<rparr>"

text \<open>
  A store with one event of head admin 2, and two sequences of calls on it. Each creates
  a poster of ten seats and books six of them. The first then shrinks the poster to
  five seats and rejects the booking. The second shrinks it to eight seats, books the
  two seats left, approves that booking and rejects the first.
\<close>

definition event_db :: db where
  "event_db = empty_db\<lparr>users := ex_users, clubs := [ex_club 1 ''Chess Club'' 2],
     events := [ex_event 1 1 2], clubs_seq := 1, events_seq := 1\<rparr>"

definition ex_createPoster :: createPoster_body where
  "ex_createPoster = \<lparr>cp_eventId = 1, cp_eventTitle = ''Open day'',
     cp_eventDate = ''2025-05-01'', cp_location = ''Hall'', cp_time = ''18:00'',
     cp_description = ''Welcome'', cp_seats = 10, cp_price = 500, cp_image = None\<rparr>"

definition shrink_then_reject :: "op list" where
  "shrink_then_reject =
     [CreatePoster ex_head ex_createPoster,
      BookTicket ex_student \<lparr>posterId = 1, numberOfPersons = 6, paymentProof = Some ''proof.png''\<rparr>,
      UpdatePoster ex_head 1 (no_update\<lparr>up_seats := Num 5\<rparr>),
      RejectTicket ex_head 1]"

definition book_then_reject :: "op list" where
  "book_then_reject =
     [CreatePoster ex_head ex_createPoster,
      BookTicket ex_student \<lparr>posterId = 1, numberOfPersons = 6, paymentProof = Some ''proof.png''\<rparr>,
      UpdatePoster ex_head 1 (no_update\<lparr>up_seats := Num 8\<rparr>),
      BookTicket ex_student \<lparr>posterId = 1, numberOfPersons = 2, paymentProof = Some ''proof.png''\<rparr>,
      ApproveTicket ex_head 2,
      RejectTicket ex_head 1]"

text \<open>
  A third sequence: the six booked seats are approved, and the poster is then shrunk to
  five seats.
\<close>

definition approve_then_shrink :: "op list" where
  "approve_then_shrink =
     [CreatePoster ex_head ex_createPoster,
      BookTicket ex_student \<lparr>posterId = 1, numberOfPersons = 6, paymentProof = Some ''proof.png''\<rparr>,
      ApproveTicket ex_head 1,
      UpdatePoster ex_head 1 (no_update\<lparr>up_seats := Num 5\<rparr>)]"

text \<open>
  Four more sequences on that store. A booking for minus five persons; a poster
  created with minus one seat; a poster of five seats with two of them booked, grown
  to \<open>2 ^ 53 + 8\<close> seats before the booking is rejected; and a poster created with
  \<open>2 ^ 53 + 8\<close> seats, two of them booked, shrunk to three seats before the booking
  is rejected.
\<close>

definition negative_booking :: "op list" where
  "negative_booking =
     [CreatePoster ex_head ex_createPoster,
      BookTicket ex_student \<lparr>posterId = 1, numberOfPersons = - 5, paymentProof = Some ''proof.png''\<rparr>]"

definition negative_seats :: "op list" where
  "negative_seats = [CreatePoster ex_head (ex_createPoster\<lparr>cp_seats := - 1\<rparr>)]"

definition grow_past_exact :: "op list" where
  "grow_past_exact =
     [CreatePoster ex_head (ex_createPoster\<lparr>cp_seats := 5\<rparr>),
      BookTicket ex_student \<lparr>posterId = 1, numberOfPersons = 2, paymentProof = Some ''proof.png''\<rparr>,
      UpdatePoster ex_head 1 (no_update\<lparr>up_seats := Num 9007199254741000\<rparr>),
      RejectTicket ex_head 1]"

definition shrink_from_past_exact :: "op list" where
  "shrink_from_past_exact =
     [CreatePoster ex_head (ex_createPoster\<lparr>cp_seats := 9007199254741000\<rparr>),
      BookTicket ex_student \<lparr>posterId = 1, numberOfPersons = 2, paymentProof = Some ''proof.png''\<rparr>,
      UpdatePoster ex_head 1 (no_update\<lparr>up_seats := Num 3\<rparr>),
      RejectTicket ex_head 1]"

text \<open>The two requests again, in a store that already has a club of their name.\<close>

definition name_taken_db :: db where
  "name_taken_db = two_requests_db\<lparr>clubs := [ex_club 1 ''Chess Club'' 1], clubs_seq := 1\<rparr>"

text \<open>The campus store with one subscription to club 1.\<close>

definition subscribed_db :: db where
  "subscribed_db = campus_db\<lparr>clubSubscriptions := [\<lparr>cs_id = 1, cs_clubId = 1, cs_userId = 3\<rparr>]\<rparr>"

section \<open>Properties the claims speak of\<close>

text \<open>The moves a request's status may make in one call: none, or out of pending.\<close>

fun transition_ok :: "status \<Rightarrow> status \<Rightarrow> bool" where
  "transition_ok a b = (b = a \<or> (a = Pending \<and> (b = Approved \<or> b = Rejected)))"

text \<open>Two calls of \<open>toggleLikePost\<close> in succession, by the same user on the same post.\<close>

definition toggle_twice :: "req_user \<Rightarrow> nat \<Rightarrow> db \<Rightarrow> db" where
  "toggle_twice usr postId s = snd (toggleLikePost usr postId (snd (toggleLikePost usr postId s)))"

text \<open>The posters, posts and events of a club, as \<open>deleteClub\<close> selects them.\<close>

definition club_posters :: "nat \<Rightarrow> db \<Rightarrow> poster list" where
  "club_posters clubId s = all_where (\<lambda>p. p_clubId p = clubId) (posters s)"

definition club_posts :: "nat \<Rightarrow> db \<Rightarrow> post list" where
  "club_posts clubId s = all_where (\<lambda>p. po_clubId p = Some clubId) (posts s)"

definition club_events :: "nat \<Rightarrow> db \<Rightarrow> event list" where
  "club_events clubId s = all_where (\<lambda>e. e_clubId e = clubId) (events s)"

text \<open>
  What \<open>deleteClub\<close> does not clear. The events of the club are free when no event
  comment names one of them and no poster of another club does; the club row is free
  when no subscription and no rating names the club.
\<close>

definition events_free :: "nat \<Rightarrow> db \<Rightarrow> bool" where
  "events_free clubId s \<longleftrightarrow>
     (\<forall>x \<in> set (eventComments s). ec_eventId x \<notin> set (map e_id (club_events clubId s)))
   \<and> (\<forall>p \<in> set (posters s).
         p_eventId p \<in> set (map e_id (club_events clubId s)) \<longrightarrow> p_clubId p = clubId)"

definition club_free :: "nat \<Rightarrow> db \<Rightarrow> bool" where
  "club_free clubId s \<longleftrightarrow>
     (\<forall>x \<in> set (clubSubscriptions s). cs_clubId x \<noteq> clubId)
   \<and> (\<forall>x \<in> set (clubRatings s). rt_clubId x \<noteq> clubId)"

text \<open>
  The store after the first four deletes of \<open>deleteClub\<close> (bookings, likes, posts,
  posters), and the store after the three statements that follow them (events, event
  requests, the head's role).
\<close>

definition content_deleted :: "nat \<Rightarrow> db \<Rightarrow> db" where
  "content_deleted clubId s =
     s\<lparr>ticketBookings :=
         filter (\<lambda>t. t_posterId t \<notin> set (map p_id (club_posters clubId s))) (ticketBookings s),
       postLikes :=
         filter (\<lambda>l. pl_postId l \<notin> set (map po_id (club_posts clubId s))) (postLikes s),
       posts := filter (\<lambda>p. po_clubId p \<noteq> Some clubId) (posts s),
       posters := filter (\<lambda>p. p_clubId p \<noteq> clubId) (posters s)\<rparr>"

definition club_emptied :: "nat \<Rightarrow> club \<Rightarrow> db \<Rightarrow> db" where
  "club_emptied clubId c s =
     (content_deleted clubId s)\<lparr>events := filter (\<lambda>e. e_clubId e \<noteq> clubId) (events s),
       eventRequests := filter (\<lambda>r. er_clubId r \<noteq> clubId) (eventRequests s),
       users := map (\<lambda>u. if u_id u = c_headId c then u\<lparr>u_role := Student\<rparr> else u) (users s)\<rparr>"


text \<open>
  The seats of a poster asked for by its pending bookings, the range the spec gives
  for \<open>seatsLeft\<close>, and the invariant of the seat counter: primary keys are distinct,
  every booking is for a poster of the store, no pending booking is for a negative
  number of persons, and on every poster \<open>seatsLeft\<close> is not negative, \<open>seatsLeft\<close>
  and the seats of the pending bookings together do not exceed \<open>seats\<close>, and
  \<open>seats\<close> is at most \<open>2 ^ 53\<close>, so that the handlers' sums are exact.
\<close>

definition pending :: "nat \<Rightarrow> db \<Rightarrow> int" where
  "pending pid s =
     sum_list (map t_numberOfPersons
       (filter (\<lambda>t. t_posterId t = pid \<and> t_status t = Pending) (ticketBookings s)))"





section \<open>Facts about the queries\<close>

lemmas ex_defs = empty_db_def ex_admin_def ex_head_def ex_student_def ex_user_def ex_users_def
  ex_poster_def ex_booking_def ex_db_def no_update_def ex_clubRequest_def two_requests_db_def
  ex_eventRequest_def resolved_db_def ex_post_def liked_db_def
  ex_club_def ex_event_def campus_db_def event_db_def ex_createPoster_def
  shrink_then_reject_def book_then_reject_def name_taken_db_def
  negative_booking_def negative_seats_def grow_past_exact_def shrink_from_past_exact_def
  subscribed_db_def approve_then_shrink_def




lemma get_where_SomeD: "get_where P rows = Some r \<Longrightarrow> r \<in> set rows \<and> P r"
  unfolding get_where_def by (induction rows) (auto split: if_splits)

lemma get_where_update_where:
  "(\<And>r. P r \<Longrightarrow> P (f r)) \<Longrightarrow>
   get_where P (update_where P f rows) = map_option f (get_where P rows)"
  unfolding get_where_def update_where_def by (induction rows) auto

lemma get_where_unique:
  "distinct (map k rows) \<Longrightarrow> get_where (\<lambda>r. k r = i) rows = Some r \<Longrightarrow>
   r' \<in> set rows \<Longrightarrow> k r' = i \<Longrightarrow> r' = r"
  unfolding get_where_def
  by (induction rows) (auto split: if_splits simp: rev_image_eqI)

lemma list_all2_update_where:
  "(\<And>r. r \<in> set rows \<Longrightarrow> R (g r) (g r) \<and> (P r \<longrightarrow> R (g r) (g (f r)))) \<Longrightarrow>
   list_all2 R (map g rows) (map g (update_where P f rows))"
  unfolding update_where_def by (induction rows) auto

lemma get_where_None_iff: "get_where P rows = None \<longleftrightarrow> (\<forall>r \<in> set rows. \<not> P r)"
  unfolding get_where_def by (auto simp add: find_None_iff)

lemma get_where_append_new:
  "get_where P rows = None \<Longrightarrow> P x \<Longrightarrow> get_where P (rows @ [x]) = Some x"
  unfolding get_where_def by (induction rows) (auto split: if_splits)

lemma delete_where_append_new:
  "get_where P rows = None \<Longrightarrow> P x \<Longrightarrow> delete_where P (rows @ [x]) = rows"
  by (simp add: get_where_None_iff delete_where_def)

lemma get_where_delete_where: "get_where P (delete_where P rows) = None"
  by (simp add: get_where_None_iff delete_where_def)

lemma update_where_twice:
  "(\<And>r. P r \<Longrightarrow> P (g r)) \<Longrightarrow>
   update_where P f (update_where P g rows) = update_where P (\<lambda>r. f (g r)) rows"
  unfolding update_where_def by (induction rows) auto

lemma update_where_id:
  "(\<And>r. r \<in> set rows \<Longrightarrow> P r \<Longrightarrow> f r = r) \<Longrightarrow> update_where P f rows = rows"
  unfolding update_where_def by (induction rows) auto

lemma same_key_same_row:
  "distinct (map k rows) \<Longrightarrow> x \<in> set rows \<Longrightarrow> y \<in> set rows \<Longrightarrow> k x = k y \<Longrightarrow> x = y"
  by (simp add: distinct_map inj_on_def)








section \<open>The ticket and seat workflow\<close>














section \<open>The request-approval workflow\<close>

subsection \<open>Status transitions of requests\<close>

lemma list_all2_transition_refl: "list_all2 transition_ok xs xs"
  by (simp add: list_all2_same)

lemma club_status_update:
  assumes "distinct (map cr_id rows)"
    and "get_where (\<lambda>r. cr_id r = rid) rows = Some r"
    and "cr_status r = Pending"
    and "st = Approved \<or> st = Rejected"
  shows "list_all2 transition_ok (map cr_status rows)
     (map cr_status (update_where (\<lambda>r. cr_id r = rid) (\<lambda>r. r\<lparr>cr_status := st\<rparr>) rows))"
proof (rule list_all2_update_where)
  fix r' assume "r' \<in> set rows"
  with assms get_where_unique [of cr_id rows rid r r']
  show "transition_ok (cr_status r') (cr_status r') \<and>
     (cr_id r' = rid \<longrightarrow> transition_ok (cr_status r') (cr_status (r'\<lparr>cr_status := st\<rparr>)))"
    by auto
qed

lemma event_status_update:
  assumes "distinct (map er_id rows)"
    and "get_where (\<lambda>r. er_id r = rid) rows = Some r"
    and "er_status r = Pending"
    and "st = Approved \<or> st = Rejected"
  shows "list_all2 transition_ok (map er_status rows)
     (map er_status (update_where (\<lambda>r. er_id r = rid) (\<lambda>r. r\<lparr>er_status := st\<rparr>) rows))"
proof (rule list_all2_update_where)
  fix r' assume "r' \<in> set rows"
  with assms get_where_unique [of er_id rows rid r r']
  show "transition_ok (er_status r') (er_status r') \<and>
     (er_id r' = rid \<longrightarrow> transition_ok (er_status r') (er_status (r'\<lparr>er_status := st\<rparr>)))"
    by auto
qed

lemma resolve_club_statuses:
  assumes "distinct (map cr_id (clubRequests s))"
  shows "list_all2 transition_ok (map cr_status (clubRequests s))
           (map cr_status (clubRequests (snd (resolve opn usr rid s))))"
  using assms
  by (cases opn)
     (auto simp add: approveClubRequest_def rejectClubRequest_def approveEventRequest_def
       rejectEventRequest_def Let_def clubRequest_by_id_def list_all2_transition_refl
       intro!: club_status_update split: option.splits)

lemma resolve_event_statuses:
  assumes "distinct (map er_id (eventRequests s))"
  shows "list_all2 transition_ok (map er_status (eventRequests s))
           (map er_status (eventRequests (snd (resolve opn usr rid s))))"
  using assms
  by (cases opn)
     (auto simp add: approveClubRequest_def rejectClubRequest_def approveEventRequest_def
       rejectEventRequest_def Let_def eventRequest_by_id_def list_all2_transition_refl
       intro!: event_status_update split: option.splits)

lemma resolve_club_final:
  assumes "clubRequest_by_id rid s = Some r" and "cr_status r \<noteq> Pending"
    and "opn = ApproveClub \<or> opn = RejectClub"
  shows "snd (resolve opn usr rid s) = s
       \<and> (ru_role usr = SuperAdmin \<longrightarrow>
            fst (resolve opn usr rid s) = (400, ''Request already '' @ status_text (cr_status r)))"
  using assms by (auto simp add: approveClubRequest_def rejectClubRequest_def)

lemma resolve_event_final:
  assumes "eventRequest_by_id rid s = Some r" and "er_status r \<noteq> Pending"
    and "opn = ApproveEvent \<or> opn = RejectEvent"
  shows "snd (resolve opn usr rid s) = s
       \<and> (ru_role usr = SuperAdmin \<longrightarrow>
            fst (resolve opn usr rid s) = (400, ''Request already '' @ status_text (er_status r)))"
  using assms by (auto simp add: approveEventRequest_def rejectEventRequest_def)


text \<open>
  C5. With the primary keys of the two request tables distinct, a call of any of the four
  handlers (approve or reject, club or event request) changes the status of a request
  only from pending to approved or from pending to rejected, and removes or adds no
  request. A caller who is not a super admin is answered 403 and the store is returned
  as it was. When a super admin approves or rejects a club (event) request that is
  already approved or rejected, the answer is 400 "Request already <status>" and the
  store is returned as it was: no request update, no club or event row, no role change.
\<close>

theorem resolved_request_final:
  assumes "distinct (map cr_id (clubRequests s))"
    and "distinct (map er_id (eventRequests s))"
  shows "list_all2 transition_ok (map cr_status (clubRequests s))
           (map cr_status (clubRequests (snd (resolve opn usr rid s))))
       \<and> list_all2 transition_ok (map er_status (eventRequests s))
           (map er_status (eventRequests (snd (resolve opn usr rid s))))
       \<and> (ru_role usr \<noteq> SuperAdmin \<longrightarrow>
            resolve opn usr rid s = ((403, ''Unauthorized access''), s))
       \<and> (ru_role usr = SuperAdmin \<and> (opn = ApproveClub \<or> opn = RejectClub)
            \<and> clubRequest_by_id rid s = Some r \<and> cr_status r \<noteq> Pending \<longrightarrow>
            resolve opn usr rid s =
              ((400, ''Request already '' @ status_text (cr_status r)), s))
       \<and> (ru_role usr = SuperAdmin \<and> (opn = ApproveEvent \<or> opn = RejectEvent)
            \<and> eventRequest_by_id rid s = Some e \<and> er_status e \<noteq> Pending \<longrightarrow>
            resolve opn usr rid s =
              ((400, ''Request already '' @ status_text (er_status e)), s))"
proof -
  have a: "ru_role usr \<noteq> SuperAdmin \<longrightarrow>
      resolve opn usr rid s = ((403, ''Unauthorized access''), s)"
    by (cases opn)
       (simp_all add: approveClubRequest_def rejectClubRequest_def approveEventRequest_def
         rejectEventRequest_def)
  have b: "ru_role usr = SuperAdmin \<and> (opn = ApproveClub \<or> opn = RejectClub)
            \<and> clubRequest_by_id rid s = Some r \<and> cr_status r \<noteq> Pending \<longrightarrow>
            resolve opn usr rid s =
              ((400, ''Request already '' @ status_text (cr_status r)), s)"
    using resolve_club_final [of rid s r opn usr] by (auto simp add: prod_eq_iff)
  have c: "ru_role usr = SuperAdmin \<and> (opn = ApproveEvent \<or> opn = RejectEvent)
            \<and> eventRequest_by_id rid s = Some e \<and> er_status e \<noteq> Pending \<longrightarrow>
            resolve opn usr rid s =
              ((400, ''Request already '' @ status_text (er_status e)), s)"
    using resolve_event_final [of rid s e opn usr] by (auto simp add: prod_eq_iff)
  from resolve_club_statuses [OF assms(1)] resolve_event_statuses [OF assms(2)] a b c
  show ?thesis by blast
qed

theorem resolved_request_final_witness:
  "resolve RejectClub ex_admin 1 resolved_db = ((400, ''Request already approved''), resolved_db)
   \<and> resolve ApproveClub ex_admin 1 resolved_db = ((400, ''Request already approved''), resolved_db)
   \<and> resolve ApproveEvent ex_admin 1 resolved_db = ((400, ''Request already rejected''), resolved_db)
   \<and> resolve RejectEvent ex_admin 1 resolved_db = ((400, ''Request already rejected''), resolved_db)
   \<and> map cr_status (clubRequests (snd (resolve RejectClub ex_admin 2 resolved_db))) =
       [Approved, Rejected]
   \<and> resolve ApproveClub ex_student 1 resolved_db = ((403, ''Unauthorized access''), resolved_db)"
proof -
  have d1: "distinct (map cr_id (clubRequests resolved_db))" by (simp add: ex_defs)
  have d2: "distinct (map er_id (eventRequests resolved_db))" by (simp add: ex_defs)
  have h1: "ru_role ex_admin = SuperAdmin" by (simp add: ex_defs)
  have h2: "clubRequest_by_id 1 resolved_db = Some (ex_clubRequest 1 2 Approved)
       \<and> cr_status (ex_clubRequest 1 2 Approved) \<noteq> Pending"
    by (simp add: clubRequest_by_id_def get_where_def ex_defs)
  have h3: "eventRequest_by_id 1 resolved_db = Some (ex_eventRequest 1 Rejected)
       \<and> er_status (ex_eventRequest 1 Rejected) \<noteq> Pending"
    by (simp add: eventRequest_by_id_def get_where_def ex_defs)
  have t1: "status_text (cr_status (ex_clubRequest 1 2 Approved)) = ''approved''"
    by (simp add: ex_defs)
  have t2: "status_text (er_status (ex_eventRequest 1 Rejected)) = ''rejected''"
    by (simp add: ex_defs)
  have c1: "resolve RejectClub ex_admin 1 resolved_db =
      ((400, ''Request already approved''), resolved_db)"
    using resolved_request_final [OF d1 d2, where opn = RejectClub and usr = ex_admin
        and rid = 1 and r = "ex_clubRequest 1 2 Approved"] h1 h2 t1
    by simp
  have c2: "resolve ApproveClub ex_admin 1 resolved_db =
      ((400, ''Request already approved''), resolved_db)"
    using resolved_request_final [OF d1 d2, where opn = ApproveClub and usr = ex_admin
        and rid = 1 and r = "ex_clubRequest 1 2 Approved"] h1 h2 t1
    by simp
  have c3: "resolve ApproveEvent ex_admin 1 resolved_db =
      ((400, ''Request already rejected''), resolved_db)"
    using resolved_request_final [OF d1 d2, where opn = ApproveEvent and usr = ex_admin
        and rid = 1 and e = "ex_eventRequest 1 Rejected"] h1 h3 t2
    by simp
  have c4: "resolve RejectEvent ex_admin 1 resolved_db =
      ((400, ''Request already rejected''), resolved_db)"
    using resolved_request_final [OF d1 d2, where opn = RejectEvent and usr = ex_admin
        and rid = 1 and e = "ex_eventRequest 1 Rejected"] h1 h3 t2
    by simp
  have c5: "map cr_status (clubRequests (snd (resolve RejectClub ex_admin 2 resolved_db))) =
       [Approved, Rejected]"
    by (simp add: rejectClubRequest_def clubRequest_by_id_def get_where_def update_where_def
        ex_defs)
  have c6: "resolve ApproveClub ex_student 1 resolved_db =
      ((403, ''Unauthorized access''), resolved_db)"
    using resolved_request_final [OF d1 d2, where opn = ApproveClub and usr = ex_student
        and rid = 1]
    by (simp add: ex_student_def)
  from c1 c2 c3 c4 c5 c6 show ?thesis by blast
qed

subsection \<open>Approving a club request\<close>

text \<open>
  C7 (as the code has it). When a super admin calls \<open>approveClubRequest\<close> on a
  pending request of an existing user, and no club has the request's \<open>clubName\<close>
  yet, the call answers 200, the resulting store has a club row whose name is the
  request's \<open>clubName\<close> and whose \<open>headId\<close> is the requester's id, and the
  requester's role is head admin.
\<close>

theorem approveClubRequest_creates_club:
  assumes "ru_role usr = SuperAdmin"
    and "clubRequest_by_id rid s = Some r"
    and "cr_status r = Pending"
    and "user_by_id (cr_headId r) s = Some u"
    and "cr_clubName r \<notin> set (map c_name (clubs s))"
  shows "fst (approveClubRequest usr rid s) =
           (200, ''Club request approved and club created successfully'')
       \<and> (\<exists>c \<in> set (clubs (snd (approveClubRequest usr rid s))).
            c_name c = cr_clubName r \<and> c_headId c = cr_headId r)
       \<and> user_by_id (cr_headId r) (snd (approveClubRequest usr rid s)) =
            Some (u\<lparr>u_role := HeadAdmin\<rparr>)"
  using assms
  by (auto simp add: approveClubRequest_def Let_def user_by_id_def get_where_update_where
      split: if_splits)

theorem approveClubRequest_creates_club_witness:
  "fst (approveClubRequest ex_admin 1 two_requests_db) =
     (200, ''Club request approved and club created successfully'')
   \<and> map c_name (clubs (snd (approveClubRequest ex_admin 1 two_requests_db))) = [''Chess Club'']
   \<and> map c_headId (clubs (snd (approveClubRequest ex_admin 1 two_requests_db))) = [2]
   \<and> user_by_id 2 (snd (approveClubRequest ex_admin 1 two_requests_db)) =
       Some (ex_user 2 HeadAdmin)"
proof -
  have h1: "ru_role ex_admin = SuperAdmin" by (simp add: ex_defs)
  have h2: "clubRequest_by_id 1 two_requests_db = Some (ex_clubRequest 1 2 Pending)"
    by (simp add: clubRequest_by_id_def get_where_def ex_defs)
  have h3: "cr_status (ex_clubRequest 1 2 Pending) = Pending" by (simp add: ex_defs)
  have h4: "user_by_id (cr_headId (ex_clubRequest 1 2 Pending)) two_requests_db =
      Some (ex_user 2 Student)"
    by (simp add: user_by_id_def get_where_def ex_defs)
  have h5: "cr_clubName (ex_clubRequest 1 2 Pending) \<notin> set (map c_name (clubs two_requests_db))"
    by (simp add: ex_defs)
  have cs: "length (clubs (snd (approveClubRequest ex_admin 1 two_requests_db))) = 1"
    by (simp add: approveClubRequest_def clubRequest_by_id_def get_where_def Let_def ex_defs)
  from approveClubRequest_creates_club [OF h1 h2 h3 h4 h5] cs show ?thesis
    by (auto simp add: length_Suc_conv ex_clubRequest_def ex_user_def)
qed

text \<open>
  A super admin approves the pending request 1 of user 2, a student, for a club named
  as a club of user 1 already is: the call answers 500, no club row has user 2 as its
  head, and user 2 is still a student.
\<close>

theorem approveClubRequest_creates_club_counterexample:
  "ru_role ex_admin = SuperAdmin
   \<and> clubRequest_by_id 1 name_taken_db = Some (ex_clubRequest 1 2 Pending)
   \<and> user_by_id 2 name_taken_db = Some (ex_user 2 Student)
   \<and> fst (approveClubRequest ex_admin 1 name_taken_db) = (500, ''Server error'')
   \<and> map c_headId (clubs (snd (approveClubRequest ex_admin 1 name_taken_db))) = [1]
   \<and> user_by_id 2 (snd (approveClubRequest ex_admin 1 name_taken_db)) = Some (ex_user 2 Student)"
  by (simp add: approveClubRequest_def clubRequest_by_id_def user_by_id_def get_where_def
      update_where_def Let_def ex_defs)

text \<open>
  C3 (as the code has it). \<open>approveClubRequest\<close> by a super admin on a pending
  request runs its three writes one after the other, outside any transaction. The
  request's status is set to approved in every case. When no club has the request's
  \<open>clubName\<close>, the club row is appended, the requester's role becomes head admin
  and the answer is 200. When a club of that name exists, the insert is refused: the
  answer is 500, no club row is added and no role changes.
\<close>

theorem approveClubRequest_writes:
  assumes "ru_role usr = SuperAdmin"
    and "clubRequest_by_id rid s = Some r"
    and "cr_status r = Pending"
  shows "map_option cr_status (clubRequest_by_id rid (snd (approveClubRequest usr rid s))) =
           Some Approved
       \<and> (cr_clubName r \<notin> set (map c_name (clubs s)) \<longrightarrow>
            fst (approveClubRequest usr rid s) =
              (200, ''Club request approved and club created successfully'')
          \<and> length (clubs (snd (approveClubRequest usr rid s))) = Suc (length (clubs s))
          \<and> c_name (last (clubs (snd (approveClubRequest usr rid s)))) = cr_clubName r
          \<and> c_headId (last (clubs (snd (approveClubRequest usr rid s)))) = cr_headId r
          \<and> users (snd (approveClubRequest usr rid s)) =
              update_where (\<lambda>u. u_id u = cr_headId r) (\<lambda>u. u\<lparr>u_role := HeadAdmin\<rparr>) (users s))
       \<and> (cr_clubName r \<in> set (map c_name (clubs s)) \<longrightarrow>
            fst (approveClubRequest usr rid s) = (500, ''Server error'')
          \<and> clubs (snd (approveClubRequest usr rid s)) = clubs s
          \<and> users (snd (approveClubRequest usr rid s)) = users s)"
  using assms
  by (simp add: approveClubRequest_def Let_def clubRequest_by_id_def get_where_update_where)

theorem approveClubRequest_writes_witness:
  "fst (approveClubRequest ex_admin 1 two_requests_db) =
     (200, ''Club request approved and club created successfully'')
   \<and> map_option cr_status (clubRequest_by_id 1
       (snd (approveClubRequest ex_admin 1 two_requests_db))) = Some Approved
   \<and> length (clubs (snd (approveClubRequest ex_admin 1 two_requests_db))) = 1
   \<and> c_headId (last (clubs (snd (approveClubRequest ex_admin 1 two_requests_db)))) = 2
   \<and> fst (approveClubRequest ex_admin 2 name_taken_db) = (500, ''Server error'')
   \<and> map_option cr_status (clubRequest_by_id 2
       (snd (approveClubRequest ex_admin 2 name_taken_db))) = Some Approved
   \<and> clubs (snd (approveClubRequest ex_admin 2 name_taken_db)) = clubs name_taken_db
   \<and> users (snd (approveClubRequest ex_admin 2 name_taken_db)) = users name_taken_db"
proof -
  have h1: "ru_role ex_admin = SuperAdmin" by (simp add: ex_defs)
  have h2: "clubRequest_by_id 1 two_requests_db = Some (ex_clubRequest 1 2 Pending)"
    by (simp add: clubRequest_by_id_def get_where_def ex_defs)
  have h3: "cr_status (ex_clubRequest 1 2 Pending) = Pending" by (simp add: ex_defs)
  have h4: "cr_clubName (ex_clubRequest 1 2 Pending) \<notin> set (map c_name (clubs two_requests_db))"
    by (simp add: ex_defs)
  have k2: "clubRequest_by_id 2 name_taken_db = Some (ex_clubRequest 2 3 Pending)"
    by (simp add: clubRequest_by_id_def get_where_def ex_defs)
  have k3: "cr_status (ex_clubRequest 2 3 Pending) = Pending" by (simp add: ex_defs)
  have k4: "cr_clubName (ex_clubRequest 2 3 Pending) \<in> set (map c_name (clubs name_taken_db))"
    by (simp add: ex_defs)
  from approveClubRequest_writes [OF h1 h2 h3] h4
  have a: "fst (approveClubRequest ex_admin 1 two_requests_db) =
     (200, ''Club request approved and club created successfully'')
   \<and> map_option cr_status (clubRequest_by_id 1
       (snd (approveClubRequest ex_admin 1 two_requests_db))) = Some Approved
   \<and> length (clubs (snd (approveClubRequest ex_admin 1 two_requests_db))) = 1
   \<and> c_headId (last (clubs (snd (approveClubRequest ex_admin 1 two_requests_db)))) = 2"
    by (simp add: ex_defs)
  from approveClubRequest_writes [OF h1 k2 k3] k4
  have b: "fst (approveClubRequest ex_admin 2 name_taken_db) = (500, ''Server error'')
   \<and> map_option cr_status (clubRequest_by_id 2
       (snd (approveClubRequest ex_admin 2 name_taken_db))) = Some Approved
   \<and> clubs (snd (approveClubRequest ex_admin 2 name_taken_db)) = clubs name_taken_db
   \<and> users (snd (approveClubRequest ex_admin 2 name_taken_db)) = users name_taken_db"
    by blast
  from a b show ?thesis by blast
qed

text \<open>
  Two pending requests for a club of the same name, approved one after the other: the
  second call answers 500, its request (of user 3) is left approved, the only club
  belongs to user 2, and user 3 is still a student.
\<close>

theorem approveClubRequest_writes_counterexample:
  "fst (approveClubRequest ex_admin 2 (snd (approveClubRequest ex_admin 1 two_requests_db))) =
     (500, ''Server error'')
   \<and> map cr_headId (clubRequests
       (snd (approveClubRequest ex_admin 2 (snd (approveClubRequest ex_admin 1 two_requests_db))))) =
       [2, 3]
   \<and> map cr_status (clubRequests
       (snd (approveClubRequest ex_admin 2 (snd (approveClubRequest ex_admin 1 two_requests_db))))) =
       [Approved, Approved]
   \<and> map c_headId (clubs
       (snd (approveClubRequest ex_admin 2 (snd (approveClubRequest ex_admin 1 two_requests_db))))) =
       [2]
   \<and> map u_id (users
       (snd (approveClubRequest ex_admin 2 (snd (approveClubRequest ex_admin 1 two_requests_db))))) =
       [1, 2, 3]
   \<and> map u_role (users
       (snd (approveClubRequest ex_admin 2 (snd (approveClubRequest ex_admin 1 two_requests_db))))) =
       [SuperAdmin, HeadAdmin, Student]"
  by (simp add: approveClubRequest_def clubRequest_by_id_def get_where_def update_where_def
      next_id_def Let_def ex_defs)

section \<open>Deleting a club\<close>

lemma delete_bookings_of_eq:
  "delete_bookings_of ps ts = filter (\<lambda>t. t_posterId t \<notin> set (map p_id ps)) ts"
  by (induction ps arbitrary: ts) (auto simp add: delete_where_def intro: filter_cong)

lemma delete_likes_of_eq:
  "delete_likes_of ps ls = filter (\<lambda>l. pl_postId l \<notin> set (map po_id ps)) ls"
  by (induction ps arbitrary: ls) (auto simp add: delete_where_def intro: filter_cong)

lemma run_content_deletes:
  "run_statements (delete_club_bookings cid # delete_club_likes cid # delete_club_posts cid
      # delete_club_posters cid # rest) s = run_statements rest (content_deleted cid s)"
  by (simp add: delete_club_bookings_def delete_club_likes_def delete_club_posts_def
      delete_club_posters_def referenced_def Let_def all_where_def delete_where_def
      delete_bookings_of_eq delete_likes_of_eq club_posters_def club_posts_def
      content_deleted_def)

lemma delete_club_events_free:
  "events_free cid s \<Longrightarrow>
   delete_club_events cid (content_deleted cid s) =
     Some ((content_deleted cid s)\<lparr>events := filter (\<lambda>e. e_clubId e \<noteq> cid) (events s)\<rparr>)"
  by (auto simp add: delete_club_events_def events_free_def referenced_def Let_def all_where_def
      delete_where_def club_events_def content_deleted_def)

lemma delete_club_events_not_free:
  "\<not> events_free cid s \<Longrightarrow> delete_club_events cid (content_deleted cid s) = None"
  by (auto simp add: delete_club_events_def events_free_def referenced_def Let_def all_where_def
      delete_where_def club_events_def content_deleted_def)


lemma run_events_free:
  "events_free cid s \<Longrightarrow>
   run_statements (delete_club_events cid # delete_club_eventRequests cid
      # reset_head_role c # rest) (content_deleted cid s) =
     run_statements rest (club_emptied cid c s)"
  by (simp only: run_statements.simps delete_club_events_free option.case)
     (simp add: delete_club_eventRequests_def reset_head_role_def
        delete_where_def update_where_def club_emptied_def content_deleted_def)

lemma delete_club_row_free:
  assumes "club_by_id cid s = Some c"
  shows "delete_club_row cid (club_emptied cid c s) =
     (if club_free cid s
      then Some ((club_emptied cid c s)\<lparr>clubs := filter (\<lambda>c. c_id c \<noteq> cid) (clubs s)\<rparr>)
      else None)"
proof -
  from assms have "c \<in> set (clubs s)" and "c_id c = cid"
    using get_where_SomeD [of "\<lambda>c. c_id c = cid" "clubs s" c]
    by (simp_all add: club_by_id_def)
  then have "set (map c_id (filter (\<lambda>c. c_id c = cid) (clubs s))) = {cid}"
    by auto
  then have g: "\<And>refs. referenced (map c_id (filter (\<lambda>c. c_id c = cid) (clubs s))) refs
      \<longleftrightarrow> cid \<in> set refs"
    unfolding referenced_def by simp
  have c: "clubs (club_emptied cid c s) = clubs s"
    and "cid \<notin> set (map er_clubId (eventRequests (club_emptied cid c s)))"
    and "cid \<notin> set (map e_clubId (events (club_emptied cid c s)))"
    and "cid \<notin> set (map p_clubId (posters (club_emptied cid c s)))"
    and "cid \<notin> set (List.map_filter po_clubId (posts (club_emptied cid c s)))"
    and "cid \<in> set (map cs_clubId (clubSubscriptions (club_emptied cid c s)))
          \<or> cid \<in> set (map rt_clubId (clubRatings (club_emptied cid c s)))
        \<longleftrightarrow> \<not> club_free cid s"
    by (auto simp add: club_emptied_def content_deleted_def club_free_def map_filter_def)
  then show ?thesis
    unfolding delete_club_row_def Let_def all_where_def delete_where_def c g
    by simp
qed

lemma deleteClub_store:
  assumes "ru_role usr = SuperAdmin" and "club_by_id cid s = Some c"
  shows "deleteClub usr cid s =
     (if \<not> events_free cid s then ((500, ''Server error''), content_deleted cid s)
      else if \<not> club_free cid s then ((500, ''Server error''), club_emptied cid c s)
      else ((200, ''Club deleted successfully and head admin role reset to student''),
            (club_emptied cid c s)\<lparr>clubs := filter (\<lambda>c. c_id c \<noteq> cid) (clubs s)\<rparr>))"
proof -
  have r: "run_statements (deleteClub_statements cid c) s =
      (if \<not> events_free cid s then (False, content_deleted cid s)
       else if \<not> club_free cid s then (False, club_emptied cid c s)
       else (True, (club_emptied cid c s)\<lparr>clubs := filter (\<lambda>c. c_id c \<noteq> cid) (clubs s)\<rparr>))"
  proof (cases "events_free cid s")
    case False
    then show ?thesis
      unfolding deleteClub_statements_def run_content_deletes
      by (simp only: run_statements.simps delete_club_events_not_free option.case if_True
          simp_thms)
  next
    case True
    then show ?thesis
      unfolding deleteClub_statements_def run_content_deletes
      unfolding run_events_free [OF True]
      by (simp only: run_statements.simps delete_club_row_free [OF assms(2)]) simp
  qed
  from assms show ?thesis
    by (simp add: deleteClub_def r)
qed

lemma deleteClub_tables:
  assumes "ru_role usr = SuperAdmin" and "club_by_id cid s = Some c"
  shows "ticketBookings (snd (deleteClub usr cid s)) =
           filter (\<lambda>t. t_posterId t \<notin> set (map p_id (club_posters cid s))) (ticketBookings s)"
    and "postLikes (snd (deleteClub usr cid s)) =
           filter (\<lambda>l. pl_postId l \<notin> set (map po_id (club_posts cid s))) (postLikes s)"
    and "posts (snd (deleteClub usr cid s)) = filter (\<lambda>p. po_clubId p \<noteq> Some cid) (posts s)"
    and "posters (snd (deleteClub usr cid s)) = filter (\<lambda>p. p_clubId p \<noteq> cid) (posters s)"
    and "clubRequests (snd (deleteClub usr cid s)) = clubRequests s"
    and "clubSubscriptions (snd (deleteClub usr cid s)) = clubSubscriptions s"
    and "eventComments (snd (deleteClub usr cid s)) = eventComments s"
    and "clubRatings (snd (deleteClub usr cid s)) = clubRatings s"
  by (simp_all add: deleteClub_store [OF assms] club_emptied_def content_deleted_def)

lemma deleteClub_events_free:
  assumes "ru_role usr = SuperAdmin" and "club_by_id cid s = Some c" and "events_free cid s"
  shows "events (snd (deleteClub usr cid s)) = filter (\<lambda>e. e_clubId e \<noteq> cid) (events s)"
    and "eventRequests (snd (deleteClub usr cid s)) =
           filter (\<lambda>r. er_clubId r \<noteq> cid) (eventRequests s)"
    and "users (snd (deleteClub usr cid s)) =
           map (\<lambda>u. if u_id u = c_headId c then u\<lparr>u_role := Student\<rparr> else u) (users s)"
    and "club_free cid s \<Longrightarrow> fst (deleteClub usr cid s) =
           (200, ''Club deleted successfully and head admin role reset to student'')"
    and "club_free cid s \<Longrightarrow>
           clubs (snd (deleteClub usr cid s)) = filter (\<lambda>c. c_id c \<noteq> cid) (clubs s)"
    and "\<not> club_free cid s \<Longrightarrow> fst (deleteClub usr cid s) = (500, ''Server error'')"
    and "\<not> club_free cid s \<Longrightarrow> clubs (snd (deleteClub usr cid s)) = clubs s"
  using assms(3)
  by (simp_all add: deleteClub_store [OF assms(1,2)] club_emptied_def content_deleted_def)

lemma deleteClub_events_held:
  assumes "ru_role usr = SuperAdmin" and "club_by_id cid s = Some c" and "\<not> events_free cid s"
  shows "fst (deleteClub usr cid s) = (500, ''Server error'')"
    and "events (snd (deleteClub usr cid s)) = events s"
    and "eventRequests (snd (deleteClub usr cid s)) = eventRequests s"
    and "users (snd (deleteClub usr cid s)) = users s"
    and "clubs (snd (deleteClub usr cid s)) = clubs s"
  using assms(3)
  by (simp_all add: deleteClub_store [OF assms(1,2)] content_deleted_def)

lemma deleteClub_other_bookings:
  assumes "ru_role usr = SuperAdmin" and "club_by_id cid s = Some c"
    and "distinct (map p_id (posters s))"
    and "t \<in> set (ticketBookings s)" and "q \<in> set (posters s)"
    and "p_id q = t_posterId t" and "p_clubId q \<noteq> cid"
  shows "t \<in> set (ticketBookings (snd (deleteClub usr cid s)))"
proof -
  have "t_posterId t \<notin> set (map p_id (club_posters cid s))"
  proof
    assume "t_posterId t \<in> set (map p_id (club_posters cid s))"
    then obtain p where p: "p \<in> set (posters s)" "p_clubId p = cid" "p_id p = t_posterId t"
      by (auto simp add: club_posters_def all_where_def)
    with assms(3,5,6) same_key_same_row [of p_id "posters s" p q] have "p = q" by simp
    with p assms(7) show False by simp
  qed
  with assms(4) show ?thesis by (simp add: deleteClub_tables(1) [OF assms(1,2)])
qed

lemma deleteClub_other_likes:
  assumes "ru_role usr = SuperAdmin" and "club_by_id cid s = Some c"
    and "distinct (map po_id (posts s))"
    and "l \<in> set (postLikes s)" and "q \<in> set (posts s)"
    and "po_id q = pl_postId l" and "po_clubId q \<noteq> Some cid"
  shows "l \<in> set (postLikes (snd (deleteClub usr cid s)))"
proof -
  have "pl_postId l \<notin> set (map po_id (club_posts cid s))"
  proof
    assume "pl_postId l \<in> set (map po_id (club_posts cid s))"
    then obtain p where p: "p \<in> set (posts s)" "po_clubId p = Some cid" "po_id p = pl_postId l"
      by (auto simp add: club_posts_def all_where_def)
    with assms(3,5,6) same_key_same_row [of po_id "posts s" p q] have "p = q" by simp
    with p assms(7) show False by simp
  qed
  with assms(4) show ?thesis by (simp add: deleteClub_tables(2) [OF assms(1,2)])
qed

text \<open>
  C8 (as the code has it). \<open>deleteClub\<close> called by a super admin on an existing club
  runs its statements in the order: bookings on the club's posters, likes on the
  club's posts, posts, posters, events, event requests, the head's role, the club row.
  The first four never throw: the bookings on the club's posters and the likes on the
  club's posts are gone, as are the club's posts and posters, and every other row of
  these four tables is kept as it was (primary keys being distinct, the bookings and
  likes that belong to posters and posts of other clubs among them). The handler
  clears no event comment, subscription or rating. When the club's events are free
  (\<open>events_free\<close>), the club's events and event requests go as well and the user
  who was its head has the role student; then, when the club row is free
  (\<open>club_free\<close>), the call answers 200 and the club row is gone, every other club
  row being kept, and otherwise the call answers 500 and the club row stays. When the
  club's events are not free, the call answers 500 and the events, event requests,
  users and clubs are as before. Club requests are not touched.
\<close>

theorem deleteClub_cascade:
  assumes "ru_role usr = SuperAdmin" and "club_by_id cid s = Some c"
  shows "ticketBookings (snd (deleteClub usr cid s)) =
           filter (\<lambda>t. t_posterId t \<notin> set (map p_id (club_posters cid s))) (ticketBookings s)
       \<and> postLikes (snd (deleteClub usr cid s)) =
           filter (\<lambda>l. pl_postId l \<notin> set (map po_id (club_posts cid s))) (postLikes s)
       \<and> posts (snd (deleteClub usr cid s)) = filter (\<lambda>p. po_clubId p \<noteq> Some cid) (posts s)
       \<and> posters (snd (deleteClub usr cid s)) = filter (\<lambda>p. p_clubId p \<noteq> cid) (posters s)
       \<and> clubRequests (snd (deleteClub usr cid s)) = clubRequests s
       \<and> clubSubscriptions (snd (deleteClub usr cid s)) = clubSubscriptions s
       \<and> eventComments (snd (deleteClub usr cid s)) = eventComments s
       \<and> clubRatings (snd (deleteClub usr cid s)) = clubRatings s
       \<and> (events_free cid s \<longrightarrow>
            events (snd (deleteClub usr cid s)) = filter (\<lambda>e. e_clubId e \<noteq> cid) (events s)
          \<and> eventRequests (snd (deleteClub usr cid s)) =
              filter (\<lambda>r. er_clubId r \<noteq> cid) (eventRequests s)
          \<and> users (snd (deleteClub usr cid s)) =
              map (\<lambda>u. if u_id u = c_headId c then u\<lparr>u_role := Student\<rparr> else u) (users s))
       \<and> (events_free cid s \<and> club_free cid s \<longrightarrow>
            fst (deleteClub usr cid s) =
              (200, ''Club deleted successfully and head admin role reset to student'')
          \<and> clubs (snd (deleteClub usr cid s)) = filter (\<lambda>c. c_id c \<noteq> cid) (clubs s))
       \<and> (events_free cid s \<and> \<not> club_free cid s \<longrightarrow>
            fst (deleteClub usr cid s) = (500, ''Server error'')
          \<and> clubs (snd (deleteClub usr cid s)) = clubs s)
       \<and> (\<not> events_free cid s \<longrightarrow>
            fst (deleteClub usr cid s) = (500, ''Server error'')
          \<and> events (snd (deleteClub usr cid s)) = events s
          \<and> eventRequests (snd (deleteClub usr cid s)) = eventRequests s
          \<and> users (snd (deleteClub usr cid s)) = users s
          \<and> clubs (snd (deleteClub usr cid s)) = clubs s)
       \<and> (distinct (map p_id (posters s)) \<longrightarrow>
            (\<forall>t \<in> set (ticketBookings s). \<forall>q \<in> set (posters s).
               p_id q = t_posterId t \<and> p_clubId q \<noteq> cid \<longrightarrow>
               t \<in> set (ticketBookings (snd (deleteClub usr cid s)))))
       \<and> (distinct (map po_id (posts s)) \<longrightarrow>
            (\<forall>l \<in> set (postLikes s). \<forall>q \<in> set (posts s).
               po_id q = pl_postId l \<and> po_clubId q \<noteq> Some cid \<longrightarrow>
               l \<in> set (postLikes (snd (deleteClub usr cid s)))))"
  using deleteClub_tables [OF assms] deleteClub_events_free [OF assms]
    deleteClub_events_held [OF assms]
    deleteClub_other_bookings [OF assms] deleteClub_other_likes [OF assms]
  by blast

text \<open>
  Club 1 of the campus store, whose events and club row are free, and the same club
  with one subscription.
\<close>

theorem deleteClub_cascade_witness:
  "fst (deleteClub ex_admin 1 campus_db) =
     (200, ''Club deleted successfully and head admin role reset to student'')
   \<and> map t_id (ticketBookings (snd (deleteClub ex_admin 1 campus_db))) = [2]
   \<and> map pl_id (postLikes (snd (deleteClub ex_admin 1 campus_db))) = [3]
   \<and> map po_id (posts (snd (deleteClub ex_admin 1 campus_db))) = [2, 3]
   \<and> map p_id (posters (snd (deleteClub ex_admin 1 campus_db))) = [2]
   \<and> map e_id (events (snd (deleteClub ex_admin 1 campus_db))) = [2]
   \<and> map er_id (eventRequests (snd (deleteClub ex_admin 1 campus_db))) = [2]
   \<and> map u_role (users (snd (deleteClub ex_admin 1 campus_db))) =
       [SuperAdmin, Student, Student, HeadAdmin]
   \<and> map c_id (clubs (snd (deleteClub ex_admin 1 campus_db))) = [2]
   \<and> ex_booking\<lparr>t_id := 2, t_posterId := 2\<rparr>
       \<in> set (ticketBookings (snd (deleteClub ex_admin 1 campus_db)))
   \<and> fst (deleteClub ex_admin 1 subscribed_db) = (500, ''Server error'')
   \<and> clubs (snd (deleteClub ex_admin 1 subscribed_db)) = clubs subscribed_db"
proof -
  have h1: "ru_role ex_admin = SuperAdmin" by (simp add: ex_defs)
  have h2: "club_by_id 1 campus_db = Some (ex_club 1 ''Chess Club'' 2)"
    by (simp add: club_by_id_def get_where_def ex_defs)
  have k2: "club_by_id 1 subscribed_db = Some (ex_club 1 ''Chess Club'' 2)"
    by (simp add: club_by_id_def get_where_def ex_defs)
  have ce: "map e_id (club_events 1 campus_db) = [1]"
    by (simp add: club_events_def all_where_def ex_defs)
  have ke: "map e_id (club_events 1 subscribed_db) = [1]"
    by (simp add: club_events_def all_where_def ex_defs)
  have h3: "events_free 1 campus_db"
    unfolding events_free_def ce by (simp add: ex_defs)
  have k3: "events_free 1 subscribed_db"
    unfolding events_free_def ke by (simp add: ex_defs)
  have h4: "club_free 1 campus_db"
    by (simp add: club_free_def ex_defs)
  have k4: "\<not> club_free 1 subscribed_db"
    by (simp add: club_free_def ex_defs)
  have cp: "map p_id (club_posters 1 campus_db) = [1]"
    by (simp add: club_posters_def all_where_def ex_defs)
  have cq: "map po_id (club_posts 1 campus_db) = [1]"
    by (simp add: club_posts_def all_where_def ex_defs)
  note c = deleteClub_cascade [OF h1 h2]
  from c h3 h4
  have a: "fst (deleteClub ex_admin 1 campus_db) =
     (200, ''Club deleted successfully and head admin role reset to student'')"
    by blast
  from c have "ticketBookings (snd (deleteClub ex_admin 1 campus_db)) =
      filter (\<lambda>t. t_posterId t \<notin> set (map p_id (club_posters 1 campus_db)))
        (ticketBookings campus_db)"
    by blast
  then have b: "map t_id (ticketBookings (snd (deleteClub ex_admin 1 campus_db))) = [2]"
    unfolding cp by (simp add: ex_defs)
  from c have "postLikes (snd (deleteClub ex_admin 1 campus_db)) =
      filter (\<lambda>l. pl_postId l \<notin> set (map po_id (club_posts 1 campus_db)))
        (postLikes campus_db)"
    by blast
  then have l: "map pl_id (postLikes (snd (deleteClub ex_admin 1 campus_db))) = [3]"
    unfolding cq by (simp add: ex_defs)
  from c have "posts (snd (deleteClub ex_admin 1 campus_db)) =
      filter (\<lambda>p. po_clubId p \<noteq> Some 1) (posts campus_db)"
    by blast
  then have po: "map po_id (posts (snd (deleteClub ex_admin 1 campus_db))) = [2, 3]"
    by (simp add: ex_defs)
  from c have "posters (snd (deleteClub ex_admin 1 campus_db)) =
      filter (\<lambda>p. p_clubId p \<noteq> 1) (posters campus_db)"
    by blast
  then have p: "map p_id (posters (snd (deleteClub ex_admin 1 campus_db))) = [2]"
    by (simp add: ex_defs)
  from c h3 have "events (snd (deleteClub ex_admin 1 campus_db)) =
      filter (\<lambda>e. e_clubId e \<noteq> 1) (events campus_db)"
    by blast
  then have e: "map e_id (events (snd (deleteClub ex_admin 1 campus_db))) = [2]"
    by (simp add: ex_defs)
  from c h3 have "eventRequests (snd (deleteClub ex_admin 1 campus_db)) =
      filter (\<lambda>r. er_clubId r \<noteq> 1) (eventRequests campus_db)"
    by blast
  then have er: "map er_id (eventRequests (snd (deleteClub ex_admin 1 campus_db))) = [2]"
    by (simp add: ex_defs)
  from c h3 have "users (snd (deleteClub ex_admin 1 campus_db)) =
      map (\<lambda>u. if u_id u = c_headId (ex_club 1 ''Chess Club'' 2) then u\<lparr>u_role := Student\<rparr> else u)
        (users campus_db)"
    by blast
  then have u: "map u_role (users (snd (deleteClub ex_admin 1 campus_db))) =
       [SuperAdmin, Student, Student, HeadAdmin]"
    by (simp add: ex_defs)
  from c h3 h4 have "clubs (snd (deleteClub ex_admin 1 campus_db)) =
      filter (\<lambda>c. c_id c \<noteq> 1) (clubs campus_db)"
    by blast
  then have cl: "map c_id (clubs (snd (deleteClub ex_admin 1 campus_db))) = [2]"
    by (simp add: ex_defs)
  have dp: "distinct (map p_id (posters campus_db))" by (simp add: ex_defs)
  have m1: "ex_booking\<lparr>t_id := 2, t_posterId := 2\<rparr> \<in> set (ticketBookings campus_db)"
    by (simp add: ex_defs)
  have m2: "ex_poster\<lparr>p_id := 2, p_eventId := 2, p_clubId := 2, p_headId := 4\<rparr>
      \<in> set (posters campus_db)"
    by (simp add: ex_defs)
  have m3: "p_id (ex_poster\<lparr>p_id := 2, p_eventId := 2, p_clubId := 2, p_headId := 4\<rparr>) =
      t_posterId (ex_booking\<lparr>t_id := 2, t_posterId := 2\<rparr>)
    \<and> p_clubId (ex_poster\<lparr>p_id := 2, p_eventId := 2, p_clubId := 2, p_headId := 4\<rparr>) \<noteq> 1"
    by simp
  from c dp m1 m2 m3
  have k: "ex_booking\<lparr>t_id := 2, t_posterId := 2\<rparr>
       \<in> set (ticketBookings (snd (deleteClub ex_admin 1 campus_db)))"
    by blast
  from deleteClub_cascade [OF h1 k2] k3 k4
  have f: "fst (deleteClub ex_admin 1 subscribed_db) = (500, ''Server error'')
     \<and> clubs (snd (deleteClub ex_admin 1 subscribed_db)) = clubs subscribed_db"
    by blast
  from a b l po p e er u cl k f show ?thesis by blast
qed

text \<open>
  A super admin deletes club 1 of the campus store, to which one user has subscribed:
  the call answers 500 and the club row is still there, while the club's events are
  gone and its head, user 2, is a student.
\<close>

theorem deleteClub_cascade_counterexample:
  "ru_role ex_admin = SuperAdmin
   \<and> club_by_id 1 subscribed_db = Some (ex_club 1 ''Chess Club'' 2)
   \<and> fst (deleteClub ex_admin 1 subscribed_db) = (500, ''Server error'')
   \<and> map c_id (clubs (snd (deleteClub ex_admin 1 subscribed_db))) = [1, 2]
   \<and> map e_id (events (snd (deleteClub ex_admin 1 subscribed_db))) = [2]
   \<and> map u_role (users (snd (deleteClub ex_admin 1 subscribed_db))) =
       [SuperAdmin, Student, Student, HeadAdmin]"
  by (simp add: deleteClub_def deleteClub_statements_def delete_club_bookings_def
      delete_club_likes_def delete_club_posts_def delete_club_posters_def
      delete_club_events_def delete_club_eventRequests_def reset_head_role_def
      delete_club_row_def referenced_def map_filter_def club_by_id_def get_where_def
      all_where_def delete_where_def update_where_def Let_def ex_defs)

section \<open>Likes\<close>

lemma likes_restored:
  assumes "distinct (map po_id (posts s))" and "post_by_id pid s = Some post"
  shows "update_where (\<lambda>p. po_id p = pid) (\<lambda>p. p\<lparr>po_likes := po_likes post + d - d\<rparr>) (posts s) =
         posts s"
proof (rule update_where_id)
  fix r assume "r \<in> set (posts s)" and "po_id r = pid"
  with assms get_where_unique [of po_id "posts s" pid post r] have "r = post"
    by (simp add: post_by_id_def)
  then show "r\<lparr>po_likes := po_likes post + d - d\<rparr> = r" by simp
qed

text \<open>
  C9 (as the code has it). For every user and every existing post (post ids distinct),
  two calls of \<open>toggleLikePost\<close> in succession leave the \<open>posts\<close> table, and so
  the post's \<open>likes\<close> counter, as it was (but for \<open>updatedAt\<close>). If the user had
  no like row on the post, the second call removes the row the first created and the
  store is the one before, but for the id counter of \<open>post_likes\<close>. If the user had
  like rows on the post, the first call removes them and the second appends one row
  with a new id: every other table is as before.
\<close>

theorem toggleLikePost_twice:
  assumes "distinct (map po_id (posts s))"
    and "post_by_id pid s = Some post"
  shows "posts (toggle_twice usr pid s) = posts s
       \<and> (like_of pid (ru_id usr) s = None \<longrightarrow>
            toggle_twice usr pid s =
              s\<lparr>postLikes_seq := next_id (postLikes_seq s) (map pl_id (postLikes s))\<rparr>)
       \<and> (like_of pid (ru_id usr) s \<noteq> None \<longrightarrow>
            toggle_twice usr pid s =
              s\<lparr>postLikes :=
                   delete_where (\<lambda>l. pl_postId l = pid \<and> pl_userId l = ru_id usr) (postLikes s)
                   @ [\<lparr>pl_id = next_id (postLikes_seq s) (map pl_id
                         (delete_where (\<lambda>l. pl_postId l = pid \<and> pl_userId l = ru_id usr)
                            (postLikes s))),
                       pl_postId = pid, pl_userId = ru_id usr\<rparr>],
                 postLikes_seq := next_id (postLikes_seq s) (map pl_id
                         (delete_where (\<lambda>l. pl_postId l = pid \<and> pl_userId l = ru_id usr)
                            (postLikes s)))\<rparr>)"
proof (cases "like_of pid (ru_id usr) s")
  case None
  from likes_restored [OF assms, of 1]
  have "update_where (\<lambda>p. po_id p = pid) (\<lambda>p. p\<lparr>po_likes := po_likes post\<rparr>) (posts s) = posts s"
    by simp
  with None assms(2) show ?thesis
    by (simp add: toggle_twice_def toggleLikePost_def Let_def post_by_id_def like_of_def
        get_where_update_where get_where_append_new delete_where_append_new update_where_twice)
next
  case (Some l)
  from likes_restored [OF assms, of "-1"]
  have "update_where (\<lambda>p. po_id p = pid) (\<lambda>p. p\<lparr>po_likes := po_likes post\<rparr>) (posts s) = posts s"
    by simp
  with Some assms(2) show ?thesis
    by (simp add: toggle_twice_def toggleLikePost_def Let_def post_by_id_def like_of_def
        get_where_update_where get_where_delete_where update_where_twice)
qed

theorem toggleLikePost_twice_witness:
  "toggle_twice ex_head 1 (liked_db\<lparr>postLikes := [], postLikes_seq := 0\<rparr>) =
     liked_db\<lparr>postLikes := [], postLikes_seq := 1\<rparr>
   \<and> posts (toggle_twice ex_student 1 liked_db) = posts liked_db"
proof -
  have d: "distinct (map po_id (posts liked_db))" by (simp add: ex_defs)
  have d': "distinct (map po_id (posts (liked_db\<lparr>postLikes := [], postLikes_seq := 0\<rparr>)))"
    by (simp add: ex_defs)
  have h: "post_by_id 1 liked_db = Some ex_post"
    by (simp add: post_by_id_def get_where_def ex_defs)
  have h': "post_by_id 1 (liked_db\<lparr>postLikes := [], postLikes_seq := 0\<rparr>) = Some ex_post"
    by (simp add: post_by_id_def get_where_def ex_defs)
  have n: "like_of 1 (ru_id ex_head) (liked_db\<lparr>postLikes := [], postLikes_seq := 0\<rparr>) = None"
    by (simp add: like_of_def get_where_def)
  from toggleLikePost_twice [OF d' h', of ex_head] n toggleLikePost_twice [OF d h, of ex_student]
  show ?thesis by (simp add: next_id_def)
qed

text \<open>
  User 3 toggles twice on post 1, which they had liked: the like rows had the ids 1 and
  2 and have the ids 2 and 3 afterwards, so the store is not the one before.
\<close>

theorem toggleLikePost_twice_counterexample:
  "post_by_id 1 liked_db = Some ex_post
   \<and> map pl_id (postLikes liked_db) = [1, 2]
   \<and> map pl_id (postLikes (toggle_twice ex_student 1 liked_db)) = [2, 3]
   \<and> toggle_twice ex_student 1 liked_db \<noteq> liked_db"
proof -
  have a: "post_by_id 1 liked_db = Some ex_post"
    by (simp add: post_by_id_def get_where_def ex_defs)
  have b: "map pl_id (postLikes liked_db) = [1, 2]" by (simp add: ex_defs)
  have c: "map pl_id (postLikes (toggle_twice ex_student 1 liked_db)) = [2, 3]"
    by (simp add: toggle_twice_def toggleLikePost_def post_by_id_def like_of_def get_where_def
        delete_where_def update_where_def next_id_def Let_def ex_defs)
  from b c have "toggle_twice ex_student 1 liked_db \<noteq> liked_db" by auto
  with a b c show ?thesis by blast
qed

section \<open>The seat counter\<close>

lemma pending_posters [simp]: "pending q (s\<lparr>posters := ps\<rparr>) = pending q s"
  by (simp add: pending_def)


lemma sum_filter_update_same:
  "(\<And>r. r \<in> set rows \<Longrightarrow> P r \<Longrightarrow> Q (f r) = Q r \<and> g (f r) = g r) \<Longrightarrow>
   sum_list (map g (filter Q (update_where P f rows))) = sum_list (map g (filter Q rows))"
  unfolding update_where_def by (induction rows) auto


lemma pending_seq [simp]:
  "pending q (s\<lparr>ticketBookings_seq := n\<rparr>) = pending q s"
  "pending q (s\<lparr>posters_seq := n\<rparr>) = pending q s"
  by (simp_all add: pending_def)

lemma in_update_where:
  "x \<in> set (update_where P f rows) \<Longrightarrow> x \<in> set rows \<or> (\<exists>r \<in> set rows. P r \<and> x = f r)"
  by (auto simp add: update_where_def split: if_splits)
















end
